theory Spec2Isabelle
  imports Complex_Main
begin

section \<open>Data model\<close>

text \<open>
  The pipeline of \<^verbatim>\<open>backend.py\<close> cuts a mesh into grid cells and adds interlocks.
  Mesh construction, boolean operations, file export, random numbers and plotting are
  done by libraries (trimesh, numpy, random, matplotlib). They are collaborators: the
  model takes them as a record of functions over an abstract mesh type \<open>'m\<close>, an
  abstract generator state \<open>'g\<close> and an abstract figure \<open>'f\<close>. A call that can raise
  returns \<open>exn + 'a\<close>, with \<open>Inl\<close> carrying the exception message. Python floats are
  idealised as \<open>real\<close>; Python integers are \<open>int\<close>.
\<close>

type_synonym exn = string
type_synonym vec3 = "real \<times> real \<times> real"
type_synonym rgba = "real \<times> real \<times> real \<times> real"

record ('m, 'g, 'f) lib =
  makedirs :: "string \<Rightarrow> exn + unit"
  load_mesh :: "string \<Rightarrow> exn + 'm"
  remove_duplicate_faces :: "'m \<Rightarrow> exn + 'm"
  remove_degenerate_faces :: "'m \<Rightarrow> exn + 'm"
  fill_holes :: "'m \<Rightarrow> exn + 'm"
  process :: "'m \<Rightarrow> exn + 'm"
  export_stl :: "'m \<Rightarrow> string \<Rightarrow> exn + unit"
  mesh_bounds :: "'m \<Rightarrow> vec3 \<times> vec3"
  is_watertight :: "'m \<Rightarrow> bool"
  is_empty :: "'m \<Rightarrow> bool"
  intersection :: "'m \<Rightarrow> 'm \<Rightarrow> exn + 'm"
  boolean_union :: "'m \<Rightarrow> 'm \<Rightarrow> exn + 'm"
  boolean_difference :: "'m \<Rightarrow> 'm \<Rightarrow> exn + 'm"
  concatenate :: "'m \<Rightarrow> 'm \<Rightarrow> 'm"
  creation_box :: "vec3 \<Rightarrow> 'm"
  creation_cylinder :: "real \<Rightarrow> real \<Rightarrow> nat \<Rightarrow> 'm"
  creation_icosphere :: "nat \<Rightarrow> real \<Rightarrow> 'm"
  apply_translation :: "'m \<Rightarrow> vec3 \<Rightarrow> 'm"
  apply_scale :: "'m \<Rightarrow> real \<Rightarrow> 'm"
  apply_rotation :: "'m \<Rightarrow> real \<Rightarrow> vec3 \<Rightarrow> 'm"
  random_seed :: "int \<Rightarrow> 'g"
  random_uniform :: "'g \<Rightarrow> real \<Rightarrow> real \<Rightarrow> real \<times> 'g"
  np_random_seed :: "int \<Rightarrow> exn + unit"
  new_figure :: "exn + 'f"
  cm_tab20 :: "real \<Rightarrow> rgba"
  add_collection3d :: "'f \<Rightarrow> 'm \<Rightarrow> rgba \<Rightarrow> exn + 'f"
  setup_axes :: "'f \<Rightarrow> vec3 \<times> vec3 \<Rightarrow> exn + 'f"
  save_view :: "'f \<Rightarrow> int \<Rightarrow> int \<Rightarrow> string \<Rightarrow> exn + unit"

text \<open>
  \<open>apply_rotation m a v\<close> stands for
  \<^verbatim>\<open>m.apply_transform(trimesh.transformations.rotation_matrix(a * np.pi, v))\<close>: the angle
  is given as a multiple of \<open>\<pi>\<close>. \<open>random_seed\<close> is \<^verbatim>\<open>random.seed\<close>: it replaces the
  process-wide generator state, whatever it was. \<open>random_uniform\<close> is
  \<^verbatim>\<open>random.uniform\<close>: it reads the generator state and returns the draw with the next
  state. The repair methods (\<^verbatim>\<open>remove_duplicate_faces\<close>, \<^verbatim>\<open>remove_degenerate_faces\<close>,
  \<^verbatim>\<open>fill_holes\<close>, \<^verbatim>\<open>process\<close>) change a mesh in place; here they return the changed
  mesh. \<open>new_figure\<close> is \<^verbatim>\<open>plt.figure\<close> with \<^verbatim>\<open>fig.add_subplot\<close>;
  \<open>add_collection3d f m c\<close> reads \<^verbatim>\<open>m.triangles\<close> and adds them to the axes in colour
  \<open>c\<close>; \<open>setup_axes\<close> is the limits, labels, title and layout of lines 313 to 326;
  \<open>save_view f elev azim path\<close> is \<^verbatim>\<open>ax.view_init\<close> followed by \<^verbatim>\<open>plt.savefig\<close>.
\<close>

section \<open>The interlock builder\<close>

text \<open>\<^verbatim>\<open>make_interlock_hybrid\<close> of \<^verbatim>\<open>backend.py\<close>, lines 11 to 60.\<close>

definition make_interlock_hybrid ::
  "('m, 'g, 'f) lib \<Rightarrow> vec3 \<Rightarrow> string \<Rightarrow> real \<Rightarrow> real \<Rightarrow> real \<Rightarrow> bool \<Rightarrow> real \<Rightarrow> bool \<Rightarrow> 'm"
where
  "make_interlock_hybrid L center axis cyl_radius cyl_height sphere_radius
       socket tolerance flip_dir =
    (let cyl = creation_cylinder L cyl_radius cyl_height 24;
         cyl = apply_translation L cyl (0, 0, cyl_height / 2);
         sphere = creation_icosphere L 2 sphere_radius;
         sphere = apply_translation L sphere (0, 0, cyl_height);
         hybrid = (case boolean_union L cyl sphere of
                     Inr u \<Rightarrow> u
                   | Inl e \<Rightarrow> concatenate L cyl sphere);
         hybrid = (if socket then apply_scale L hybrid tolerance else hybrid);
         hybrid = (if axis = ''x'' then apply_rotation L hybrid (1 / 2) (0, 1, 0)
                   else if axis = ''y'' then apply_rotation L hybrid (1 / 2) (1, 0, 0)
                   else hybrid);
         direction = (if \<not> flip_dir then - 1 else 1);
         offset = cyl_height * 0.8 * direction;
         hybrid = (if axis = ''x'' then apply_translation L hybrid (offset, 0, 0)
                   else if axis = ''y'' then apply_translation L hybrid (0, offset, 0)
                   else if axis = ''z'' then apply_translation L hybrid (0, 0, offset)
                   else hybrid);
         hybrid = apply_translation L hybrid center
     in hybrid)"

text \<open>\<^verbatim>\<open>make_interlock_hybrid\<close> of \<^verbatim>\<open>backend2.py\<close>, lines 11 to 60.\<close>

definition make_interlock_hybrid2 ::
  "('m, 'g, 'f) lib \<Rightarrow> vec3 \<Rightarrow> string \<Rightarrow> real \<Rightarrow> real \<Rightarrow> real \<Rightarrow> bool \<Rightarrow> real \<Rightarrow> bool \<Rightarrow> 'm"
where
  "make_interlock_hybrid2 L center axis cyl_radius cyl_height sphere_radius
       socket tolerance flip_dir =
    (let cyl = creation_cylinder L cyl_radius cyl_height 24;
         cyl = apply_translation L cyl (0, 0, cyl_height / 2);
         sphere = creation_icosphere L 2 sphere_radius;
         sphere = apply_translation L sphere (0, 0, cyl_height);
         hybrid = (case boolean_union L cyl sphere of
                     Inr u \<Rightarrow> u
                   | Inl e \<Rightarrow> concatenate L cyl sphere);
         hybrid = (if socket then apply_scale L hybrid tolerance else hybrid);
         hybrid = (if axis = ''x'' then apply_rotation L hybrid (1 / 2) (0, 1, 0)
                   else if axis = ''y'' then apply_rotation L hybrid (1 / 2) (1, 0, 0)
                   else hybrid);
         direction = (if \<not> flip_dir then - 1 else 1);
         offset = cyl_height * 0.8 * direction;
         hybrid = (if axis = ''x'' then apply_translation L hybrid (offset, 0, 0)
                   else if axis = ''y'' then apply_translation L hybrid (0, offset, 0)
                   else if axis = ''z'' then apply_translation L hybrid (0, 0, offset)
                   else hybrid);
         hybrid = apply_translation L hybrid center
     in hybrid)"

section \<open>Library functions with a fixed meaning\<close>

text \<open>
  \<^verbatim>\<open>np.linspace(start, stop, num)\<close> (numpy; not code of the repository), after numpy's
  implementation: a negative \<open>num\<close> raises \<^verbatim>\<open>ValueError\<close>; otherwise the samples are
  \<open>start + t * step\<close> for \<open>t = 0, ..., num - 1\<close> with \<open>step = (stop - start) / (num - 1)\<close>,
  and for \<open>num > 1\<close> the last sample is overwritten with \<open>stop\<close>. For \<open>num = 1\<close> the
  only sample is \<open>start\<close>, for \<open>num = 0\<close> the array is empty.
\<close>

definition linspace :: "real \<Rightarrow> real \<Rightarrow> int \<Rightarrow> exn + real list" where
  "linspace start stop num =
    (if num < 0 then Inl ''ValueError: Number of samples must be non-negative''
     else if num = 0 then Inr []
     else if num = 1 then Inr [start]
     else
       (let step = (stop - start) / real_of_int (num - 1);
            y = map (\<lambda>t. start + real t * step) [0..<nat num]
        in Inr (y[nat num - 1 := stop])))"

text \<open>Decimal printing of an integer, as an f-string does it.\<close>

fun str_nat :: "nat \<Rightarrow> string" where
  "str_nat n =
    (if n < 10 then [''0123456789'' ! n]
     else str_nat (n div 10) @ [''0123456789'' ! (n mod 10)])"

declare str_nat.simps [simp del]

definition str_int :: "int \<Rightarrow> string" where
  "str_int i = (if i < 0 then CHR ''-'' # str_nat (nat (- i)) else str_nat (nat i))"

text \<open>\<^verbatim>\<open>os.path.join\<close> of two components, after \<^verbatim>\<open>posixpath.join\<close>.\<close>

definition path_join :: "string \<Rightarrow> string \<Rightarrow> string" where
  "path_join a b =
    (if b \<noteq> [] \<and> hd b = CHR ''/'' then b
     else if a = [] \<or> last a = CHR ''/'' then a @ b
     else a @ ''/'' @ b)"

section \<open>Parameters, pipeline state and report\<close>

text \<open>
  The parameters of \<^verbatim>\<open>generate_puzzle_from_stl\<close>. \<^verbatim>\<open>progress_callback\<close> keeps its
  default \<^verbatim>\<open>None\<close>, so \<^verbatim>\<open>update_progress\<close> does nothing and is left out.
\<close>

record params =
  input_stl_path :: string
  divisions :: "int \<times> int \<times> int"
  locks_per_face :: int
  cyl_radius :: real
  cyl_height :: real
  sphere_radius :: real
  socket_tolerance :: real
  seed :: int
  output_dir :: string

datatype role = Key | Socket

text \<open>
  One interlock instance as the loop body handles it: the cell, the face axis, the
  instance index, the branch taken (\<open>Key\<close> for the union branch, \<open>Socket\<close> for the
  difference branch) and the centre that was drawn.
\<close>

datatype attempt =
  Attempt (a_cell: "int \<times> int \<times> int") (a_axis: string) (a_n: int) (a_role: role)
    (a_center: vec3)

text \<open>
  The mutable state of a run: the process-wide generator of module \<^verbatim>\<open>random\<close>, the
  local variables \<^verbatim>\<open>piece_meshes\<close>, \<^verbatim>\<open>piece_paths\<close>, \<^verbatim>\<open>piece_count\<close>,
  \<^verbatim>\<open>completed_pieces\<close>, and two observation logs that the code does not keep: the files
  written by \<^verbatim>\<open>export\<close> and the interlock instances handled, both in order.
\<close>

record ('m, 'g) pstate =
  rng :: 'g
  piece_meshes :: "'m list"
  piece_paths :: "string list"
  piece_count :: int
  completed_pieces :: int
  exported :: "(string \<times> 'm) list"
  attempts :: "attempt list"

text \<open>
  The value of \<^verbatim>\<open>success_rate\<close>: the f-string \<^verbatim>\<open>f"{v:.1f}%"\<close> of a value \<open>v\<close>, or the
  literal \<^verbatim>\<open>"0%"\<close>.
\<close>

datatype rate = OneDecimalPercent real | ZeroPercent

record mesh_info =
  mi_bounds :: "vec3 \<times> vec3"
  mi_watertight :: bool
  mi_filled_mesh_file :: string
  mi_piece_count :: int
  mi_total_possible_pieces :: int
  mi_success_rate :: rate

record report =
  r_piece_paths :: "string list"
  r_view_image_paths :: "string list"
  r_mesh_info :: mesh_info

section \<open>One interlock instance\<close>

text \<open>
  The body of the three inner loops of \<^verbatim>\<open>generate_puzzle_from_stl\<close> (lines 172 to 200,
  205 to 233 and 238 to 266 of \<^verbatim>\<open>backend.py\<close>), one definition per face axis as in
  the source. The two centre coordinates are drawn before the \<^verbatim>\<open>try\<close>; inside it the
  parity test chooses the union of a key or the difference of a socket. An exception
  of the boolean operation is caught: \<^verbatim>\<open>submesh\<close> was not assigned and keeps its
  value. The primitive constructions and rigid motions inside
  \<^verbatim>\<open>make_interlock_hybrid\<close> are taken not to raise.
\<close>

definition x_interlock ::
  "('m, 'g, 'f) lib \<Rightarrow> params \<Rightarrow> int \<Rightarrow> int \<Rightarrow> int \<Rightarrow> real \<Rightarrow> real \<Rightarrow> real \<Rightarrow> real \<Rightarrow> real \<Rightarrow> real \<Rightarrow>
   int \<Rightarrow> 'm \<times> ('m, 'g) pstate \<Rightarrow> 'm \<times> ('m, 'g) pstate"
where
  "x_interlock L P i j k x0 x1 y0 y1 z0 z1 n st =
    (let submesh = fst st; s = snd st;
         face_x = x1;
         (cy, g) = random_uniform L (rng s) (y0 + 0.2 * (y1 - y0))
                      (y1 - 0.2 * (y1 - y0));
         (cz, g) = random_uniform L g (z0 + 0.2 * (z1 - z0))
                      (z1 - 0.2 * (z1 - z0));
         center = (face_x, cy, cz);
         is_key = (((i + j + k) mod 2 = 0) \<noteq> (n mod 2 = 1));
         s = s\<lparr>rng := g,
               attempts := attempts s @
                 [Attempt (i, j, k) ''x'' n (if is_key then Key else Socket) center]\<rparr>
     in case (if is_key
              then boolean_union L submesh
                     (make_interlock_hybrid L center ''x'' (cyl_radius P) (cyl_height P)
                        (sphere_radius P) False 1.05 False)
              else boolean_difference L submesh
                     (make_interlock_hybrid L center ''x'' (cyl_radius P) (cyl_height P)
                        (sphere_radius P) True (socket_tolerance P) True)) of
          Inr m \<Rightarrow> (m, s)
        | Inl e \<Rightarrow> (submesh, s))"

definition y_interlock ::
  "('m, 'g, 'f) lib \<Rightarrow> params \<Rightarrow> int \<Rightarrow> int \<Rightarrow> int \<Rightarrow> real \<Rightarrow> real \<Rightarrow> real \<Rightarrow> real \<Rightarrow> real \<Rightarrow> real \<Rightarrow>
   int \<Rightarrow> 'm \<times> ('m, 'g) pstate \<Rightarrow> 'm \<times> ('m, 'g) pstate"
where
  "y_interlock L P i j k x0 x1 y0 y1 z0 z1 n st =
    (let submesh = fst st; s = snd st;
         face_y = y1;
         (cx, g) = random_uniform L (rng s) (x0 + 0.2 * (x1 - x0))
                      (x1 - 0.2 * (x1 - x0));
         (cz, g) = random_uniform L g (z0 + 0.2 * (z1 - z0))
                      (z1 - 0.2 * (z1 - z0));
         center = (cx, face_y, cz);
         is_key = (((i + j + k) mod 2 = 0) \<noteq> (n mod 2 = 1));
         s = s\<lparr>rng := g,
               attempts := attempts s @
                 [Attempt (i, j, k) ''y'' n (if is_key then Key else Socket) center]\<rparr>
     in case (if is_key
              then boolean_union L submesh
                     (make_interlock_hybrid L center ''y'' (cyl_radius P) (cyl_height P)
                        (sphere_radius P) False 1.05 False)
              else boolean_difference L submesh
                     (make_interlock_hybrid L center ''y'' (cyl_radius P) (cyl_height P)
                        (sphere_radius P) True (socket_tolerance P) True)) of
          Inr m \<Rightarrow> (m, s)
        | Inl e \<Rightarrow> (submesh, s))"

definition z_interlock ::
  "('m, 'g, 'f) lib \<Rightarrow> params \<Rightarrow> int \<Rightarrow> int \<Rightarrow> int \<Rightarrow> real \<Rightarrow> real \<Rightarrow> real \<Rightarrow> real \<Rightarrow> real \<Rightarrow> real \<Rightarrow>
   int \<Rightarrow> 'm \<times> ('m, 'g) pstate \<Rightarrow> 'm \<times> ('m, 'g) pstate"
where
  "z_interlock L P i j k x0 x1 y0 y1 z0 z1 n st =
    (let submesh = fst st; s = snd st;
         face_z = z1;
         (cx, g) = random_uniform L (rng s) (x0 + 0.2 * (x1 - x0))
                      (x1 - 0.2 * (x1 - x0));
         (cy, g) = random_uniform L g (y0 + 0.2 * (y1 - y0))
                      (y1 - 0.2 * (y1 - y0));
         center = (cx, cy, face_z);
         is_key = (((i + j + k) mod 2 = 0) \<noteq> (n mod 2 = 1));
         s = s\<lparr>rng := g,
               attempts := attempts s @
                 [Attempt (i, j, k) ''z'' n (if is_key then Key else Socket) center]\<rparr>
     in case (if is_key
              then boolean_union L submesh
                     (make_interlock_hybrid L center ''z'' (cyl_radius P) (cyl_height P)
                        (sphere_radius P) False 1.05 False)
              else boolean_difference L submesh
                     (make_interlock_hybrid L center ''z'' (cyl_radius P) (cyl_height P)
                        (sphere_radius P) True (socket_tolerance P) True)) of
          Inr m \<Rightarrow> (m, s)
        | Inl e \<Rightarrow> (submesh, s))"

text \<open>
  The three face sections of one cell, in the source's order X, Y, Z; \<^verbatim>\<open>range(m)\<close> is
  the list \<open>[0..m - 1]\<close>, empty for \<open>m \<le> 0\<close>.
\<close>

definition cell_interlocks ::
  "('m, 'g, 'f) lib \<Rightarrow> params \<Rightarrow> int \<Rightarrow> int \<Rightarrow> int \<Rightarrow> int \<Rightarrow> int \<Rightarrow> int \<Rightarrow>
   real \<Rightarrow> real \<Rightarrow> real \<Rightarrow> real \<Rightarrow> real \<Rightarrow> real \<Rightarrow> 'm \<times> ('m, 'g) pstate \<Rightarrow> 'm \<times> ('m, 'g) pstate"
where
  "cell_interlocks L P nx ny nz i j k x0 x1 y0 y1 z0 z1 st =
    (let st = (if i < nx - 1
               then fold (x_interlock L P i j k x0 x1 y0 y1 z0 z1) [0..locks_per_face P - 1] st
               else st);
         st = (if j < ny - 1
               then fold (y_interlock L P i j k x0 x1 y0 y1 z0 z1) [0..locks_per_face P - 1] st
               else st);
         st = (if k < nz - 1
               then fold (z_interlock L P i j k x0 x1 y0 y1 z0 z1) [0..locks_per_face P - 1] st
               else st)
     in st)"

section \<open>One cell\<close>

text \<open>
  The export section, lines 268 to 282: cleanup, export and bookkeeping are the body of
  one \<^verbatim>\<open>try\<close>; any exception leaves the lists and the counter as they were.
\<close>

definition export_piece ::
  "('m, 'g, 'f) lib \<Rightarrow> string \<Rightarrow> 'm \<Rightarrow> ('m, 'g) pstate \<Rightarrow> ('m, 'g) pstate"
where
  "export_piece L filename submesh s =
    (case process L submesh of
       Inl e \<Rightarrow> s
     | Inr submesh \<Rightarrow>
    (case remove_degenerate_faces L submesh of
       Inl e \<Rightarrow> s
     | Inr submesh \<Rightarrow>
    (case remove_duplicate_faces L submesh of
       Inl e \<Rightarrow> s
     | Inr submesh \<Rightarrow>
    (case export_stl L submesh filename of
       Inl e \<Rightarrow> s
     | Inr u \<Rightarrow>
         s\<lparr>piece_meshes := piece_meshes s @ [submesh],
           piece_paths := piece_paths s @ [filename],
           piece_count := piece_count s + 1,
           exported := exported s @ [(filename, submesh)]\<rparr>))))"

definition piece_filename :: "params \<Rightarrow> int \<Rightarrow> int \<Rightarrow> int \<Rightarrow> string" where
  "piece_filename P i j k =
    path_join (output_dir P)
      (''piece_'' @ str_int i @ ''_'' @ str_int j @ ''_'' @ str_int k @ ''.stl'')"

text \<open>
  The body of the innermost cell loop, lines 144 to 284. The cut lists have
  \<open>nx + 1\<close>, \<open>ny + 1\<close> and \<open>nz + 1\<close> entries and the indices come from
  \<^verbatim>\<open>range(nx)\<close>, \<^verbatim>\<open>range(ny)\<close>, \<^verbatim>\<open>range(nz)\<close>, so every read is in range. The
  progress value of line 144 divides by \<^verbatim>\<open>total_pieces\<close>, which is positive whenever a
  cell is visited; it is passed to \<^verbatim>\<open>update_progress\<close> only and is left out.
\<close>

definition process_cell ::
  "('m, 'g, 'f) lib \<Rightarrow> params \<Rightarrow> 'm \<Rightarrow> real list \<Rightarrow> real list \<Rightarrow> real list \<Rightarrow>
   int \<Rightarrow> int \<Rightarrow> int \<Rightarrow> int \<Rightarrow> int \<Rightarrow> int \<Rightarrow> ('m, 'g) pstate \<Rightarrow> ('m, 'g) pstate"
where
  "process_cell L P mesh x_cuts y_cuts z_cuts nx ny nz i j k s =
    (let x0 = x_cuts ! nat i; x1 = x_cuts ! nat (i + 1);
         y0 = y_cuts ! nat j; y1 = y_cuts ! nat (j + 1);
         z0 = z_cuts ! nat k; z1 = z_cuts ! nat (k + 1);
         cube = creation_box L (x1 - x0, y1 - y0, z1 - z0);
         cube = apply_translation L cube ((x1 + x0) / 2, (y1 + y0) / 2, (z1 + z0) / 2)
     in case intersection L mesh cube of
          Inl e \<Rightarrow> s\<lparr>completed_pieces := completed_pieces s + 1\<rparr>
        | Inr submesh \<Rightarrow>
            if is_empty L submesh then s\<lparr>completed_pieces := completed_pieces s + 1\<rparr>
            else
              (let st = cell_interlocks L P nx ny nz i j k x0 x1 y0 y1 z0 z1 (submesh, s);
                   filename = piece_filename P i j k;
                   s = export_piece L filename (fst st) (snd st)
               in s\<lparr>completed_pieces := completed_pieces s + 1\<rparr>))"

text \<open>The three nested loops over the cells, lines 141 to 143.\<close>

definition all_cells ::
  "('m, 'g, 'f) lib \<Rightarrow> params \<Rightarrow> 'm \<Rightarrow> real list \<Rightarrow> real list \<Rightarrow> real list \<Rightarrow>
   int \<Rightarrow> int \<Rightarrow> int \<Rightarrow> ('m, 'g) pstate \<Rightarrow> ('m, 'g) pstate"
where
  "all_cells L P mesh x_cuts y_cuts z_cuts nx ny nz s =
    fold (\<lambda>i. fold (\<lambda>j. fold (\<lambda>k.
            process_cell L P mesh x_cuts y_cuts z_cuts nx ny nz i j k)
          [0..nz - 1]) [0..ny - 1]) [0..nx - 1] s"

section \<open>Previews\<close>

text \<open>
  Step 4, lines 289 to 347. Drawing one piece is guarded by its own \<^verbatim>\<open>try\<close>; creating
  the figure, setting up the axes and saving a view are not guarded.
\<close>

definition view_angles :: "(int \<times> int) list" where
  "view_angles = [(20, 30), (90, 0), (0, 0), (0, 90), (45, 45)]"

definition draw_pieces :: "('m, 'g, 'f) lib \<Rightarrow> 'm list \<Rightarrow> rgba list \<Rightarrow> 'f \<Rightarrow> 'f" where
  "draw_pieces L pieces colors fig =
    fold (\<lambda>idx fig.
            case add_collection3d L fig (pieces ! idx) (colors ! (idx mod length colors)) of
              Inr fig' \<Rightarrow> fig'
            | Inl e \<Rightarrow> fig)
      [0..<length pieces] fig"

fun save_views ::
  "('m, 'g, 'f) lib \<Rightarrow> 'f \<Rightarrow> string \<Rightarrow> int \<Rightarrow> (int \<times> int) list \<Rightarrow> string list \<Rightarrow> exn + string list"
where
  "save_views L fig out idx [] view_image_paths = Inr view_image_paths"
| "save_views L fig out idx ((elev, azim) # rest) view_image_paths =
    (let view_path = path_join out
           (''puzzle_view_'' @ str_int (idx + 1) @ ''_e'' @ str_int elev @ ''_a'' @
            str_int azim @ ''.png'')
     in case save_view L fig elev azim view_path of
          Inl e \<Rightarrow> Inl e
        | Inr u \<Rightarrow> save_views L fig out (idx + 1) rest (view_image_paths @ [view_path]))"

definition render_views ::
  "('m, 'g, 'f) lib \<Rightarrow> params \<Rightarrow> vec3 \<times> vec3 \<Rightarrow> 'm list \<Rightarrow> exn + string list"
where
  "render_views L P bnds pieces =
    (let view_image_paths = [] in
     if length pieces > 0 then
       (case new_figure L of
          Inl e \<Rightarrow> Inl e
        | Inr fig \<Rightarrow>
       (case linspace 0 1 (max 1 (int (length pieces))) of
          Inl e \<Rightarrow> Inl e
        | Inr ts \<Rightarrow>
       (let colors = map (cm_tab20 L) ts;
            fig = draw_pieces L pieces colors fig
        in case setup_axes L fig bnds of
             Inl e \<Rightarrow> Inl e
           | Inr fig \<Rightarrow> save_views L fig (output_dir P) 0 view_angles view_image_paths)))
     else Inr view_image_paths)"

section \<open>The pipeline\<close>

text \<open>Step 0, lines 95 to 112: only a failure of \<^verbatim>\<open>fill_holes\<close> is caught.\<close>

definition load_and_clean :: "('m, 'g, 'f) lib \<Rightarrow> params \<Rightarrow> exn + 'm \<times> string" where
  "load_and_clean L P =
    (case makedirs L (output_dir P) of
       Inl e \<Rightarrow> Inl e
     | Inr u \<Rightarrow>
    (case load_mesh L (input_stl_path P) of
       Inl e \<Rightarrow> Inl e
     | Inr mesh \<Rightarrow>
    (case remove_duplicate_faces L mesh of
       Inl e \<Rightarrow> Inl e
     | Inr mesh \<Rightarrow>
    (case remove_degenerate_faces L mesh of
       Inl e \<Rightarrow> Inl e
     | Inr mesh \<Rightarrow>
    (let mesh = (case fill_holes L mesh of Inr m \<Rightarrow> m | Inl e \<Rightarrow> mesh) in
     case process L mesh of
       Inl e \<Rightarrow> Inl e
     | Inr mesh \<Rightarrow>
    (let filled_mesh_file = path_join (output_dir P) ''input_filled.stl'' in
     case export_stl L mesh filled_mesh_file of
       Inl e \<Rightarrow> Inl e
     | Inr u \<Rightarrow> Inr (mesh, filled_mesh_file)))))))"

text \<open>Step 1, lines 117 to 125: the three cut sequences.\<close>

definition grid_cuts ::
  "vec3 \<times> vec3 \<Rightarrow> int \<times> int \<times> int \<Rightarrow> exn + real list \<times> real list \<times> real list"
where
  "grid_cuts bnds divs =
    (case bnds of ((x_min, y_min, z_min), (x_max, y_max, z_max)) \<Rightarrow>
     case divs of (nx, ny, nz) \<Rightarrow>
    (case linspace x_min x_max (nx + 1) of
       Inl e \<Rightarrow> Inl e
     | Inr x_cuts \<Rightarrow>
    (case linspace y_min y_max (ny + 1) of
       Inl e \<Rightarrow> Inl e
     | Inr y_cuts \<Rightarrow>
    (case linspace z_min z_max (nz + 1) of
       Inl e \<Rightarrow> Inl e
     | Inr z_cuts \<Rightarrow> Inr (x_cuts, y_cuts, z_cuts)))))"

definition initial_state :: "'g \<Rightarrow> ('m, 'g) pstate" where
  "initial_state g =
    \<lparr>rng = g, piece_meshes = [], piece_paths = [], piece_count = 0, completed_pieces = 0,
     exported = [], attempts = []\<rparr>"

text \<open>
  \<^verbatim>\<open>generate_puzzle_from_stl\<close>, lines 63 to 364. The third argument is the state of
  the process-wide generator when the function is called. The result is what the
  function returns, or the exception it raises, with the final state.
\<close>

definition generate_puzzle_from_stl ::
  "('m, 'g, 'f) lib \<Rightarrow> params \<Rightarrow> 'g \<Rightarrow> (exn + report) \<times> ('m, 'g) pstate"
where
  "generate_puzzle_from_stl L P g0 =
    (let s = initial_state g0 in
     case load_and_clean L P of
       Inl e \<Rightarrow> (Inl e, s)
     | Inr (mesh, filled_mesh_file) \<Rightarrow>
    (let s = s\<lparr>exported := [(filled_mesh_file, mesh)]\<rparr>;
         bnds = mesh_bounds L mesh
     in case grid_cuts bnds (divisions P) of
          Inl e \<Rightarrow> (Inl e, s)
        | Inr (x_cuts, y_cuts, z_cuts) \<Rightarrow>
    (case divisions P of (nx, ny, nz) \<Rightarrow>
    (let s = s\<lparr>rng := random_seed L (seed P)\<rparr> in
     case np_random_seed L (seed P) of
       Inl e \<Rightarrow> (Inl e, s)
     | Inr u \<Rightarrow>
    (let total_pieces = nx * ny * nz;
         s = all_cells L P mesh x_cuts y_cuts z_cuts nx ny nz s
     in case render_views L P bnds (piece_meshes s) of
          Inl e \<Rightarrow> (Inl e, s)
        | Inr view_image_paths \<Rightarrow>
            (Inr \<lparr>r_piece_paths = piece_paths s,
                  r_view_image_paths = view_image_paths,
                  r_mesh_info =
                    \<lparr>mi_bounds = bnds,
                     mi_watertight = is_watertight L mesh,
                     mi_filled_mesh_file = filled_mesh_file,
                     mi_piece_count = piece_count s,
                     mi_total_possible_pieces = total_pieces,
                     mi_success_rate =
                       (if total_pieces > 0
                        then OneDecimalPercent
                               (real_of_int (piece_count s) / real_of_int total_pieces * 100)
                        else ZeroPercent)\<rparr>\<rparr>,
             s))))))"

section \<open>A symbolic library for running the model\<close>

text \<open>
  To run the pipeline on concrete inputs, the collaborators are instantiated with a
  symbolic library: a mesh is the term of the operations that built it, the generator
  state is a counter, a figure is the list of the pieces drawn with their colours. The
  input mesh has the unit cube as its bounding box. Three parameters choose which calls
  raise: \<open>cleanup_fails\<close> for \<^verbatim>\<open>process\<close>, \<open>union_fails\<close> for the boolean union and
  \<open>difference_fails\<close> for the boolean difference. \<^verbatim>\<open>np.random.seed\<close> rejects a seed
  outside \<open>0 .. 2^32 - 1\<close>, as numpy does.
\<close>

datatype smesh =
    Loaded string
  | Box vec3
  | Cylinder real real nat
  | Icosphere nat real
  | Translated smesh vec3
  | Scaled smesh real
  | Rotated smesh real vec3
  | Intersected smesh smesh
  | United smesh smesh
  | Subtracted smesh smesh
  | Concatenated smesh smesh

definition sym_lib ::
  "(smesh \<Rightarrow> bool) \<Rightarrow> (smesh \<Rightarrow> smesh \<Rightarrow> bool) \<Rightarrow> (smesh \<Rightarrow> smesh \<Rightarrow> bool) \<Rightarrow>
   (smesh, nat, (smesh \<times> rgba) list) lib"
where
  "sym_lib cleanup_fails union_fails difference_fails =
    \<lparr>makedirs = (\<lambda>d. Inr ()),
     load_mesh = (\<lambda>path. Inr (Loaded path)),
     remove_duplicate_faces = Inr,
     remove_degenerate_faces = Inr,
     fill_holes = Inr,
     process = (\<lambda>m. if cleanup_fails m then Inl ''validation failed'' else Inr m),
     export_stl = (\<lambda>m path. Inr ()),
     mesh_bounds = (\<lambda>m. ((0, 0, 0), (1, 1, 1))),
     is_watertight = (\<lambda>m. True),
     is_empty = (\<lambda>m. False),
     intersection = (\<lambda>a b. Inr (Intersected a b)),
     boolean_union =
       (\<lambda>a b. if union_fails a b then Inl ''union failed'' else Inr (United a b)),
     boolean_difference =
       (\<lambda>a b. if difference_fails a b then Inl ''difference failed''
              else Inr (Subtracted a b)),
     concatenate = Concatenated,
     creation_box = Box,
     creation_cylinder = Cylinder,
     creation_icosphere = Icosphere,
     apply_translation = Translated,
     apply_scale = Scaled,
     apply_rotation = Rotated,
     random_seed = (\<lambda>n. nat \<bar>n\<bar>),
     random_uniform = (\<lambda>g a b. (a + (b - a) * (real (g mod 10) / 10), Suc g)),
     np_random_seed =
       (\<lambda>n. if 0 \<le> n \<and> n < 2 ^ 32 then Inr ()
            else Inl ''ValueError: Seed must be between 0 and 2**32 - 1''),
     new_figure = Inr [],
     cm_tab20 = (\<lambda>t. (t, t, t, 1)),
     add_collection3d = (\<lambda>fig m c. Inr (fig @ [(m, c)])),
     setup_axes = (\<lambda>fig b. Inr fig),
     save_view = (\<lambda>fig elev azim path. Inr ())\<rparr>"

text \<open>
  Three instances: nothing raises; \<^verbatim>\<open>process\<close> raises on every mesh but the loaded
  one (so the cleanup of every piece fails); every boolean union and difference raises.
\<close>

definition reliable_lib :: "(smesh, nat, (smesh \<times> rgba) list) lib" where
  "reliable_lib = sym_lib (\<lambda>m. False) (\<lambda>a b. False) (\<lambda>a b. False)"

definition cleanup_failing_lib :: "(smesh, nat, (smesh \<times> rgba) list) lib" where
  "cleanup_failing_lib =
    sym_lib (\<lambda>m. case m of Loaded path \<Rightarrow> False | _ \<Rightarrow> True) (\<lambda>a b. False) (\<lambda>a b. False)"


definition example_params :: "int \<times> int \<times> int \<Rightarrow> int \<Rightarrow> params" where
  "example_params divs locks =
    \<lparr>input_stl_path = ''cube.stl'', divisions = divs, locks_per_face = locks,
     cyl_radius = 0.3, cyl_height = 0.5, sphere_radius = 0.4, socket_tolerance = 1.06,
     seed = 42, output_dir = ''out''\<rparr>"


section \<open>The rules of the specification\<close>

text \<open>
  FaceRoleAssignment as the specification words it (section 4.3):
  \<^verbatim>\<open>is_key = ((i+j+k) % 2 == 0) XOR (n % 2 == 1)\<close>, and the application of a role
  (section 4.4, step 2): the union of a key built with \<^verbatim>\<open>flip_dir=False\<close>, or the
  difference of a socket scaled by the tolerance and built with \<^verbatim>\<open>flip_dir=True\<close>.
  These are compared with the loop bodies above.
\<close>

definition is_key :: "int \<Rightarrow> int \<Rightarrow> int \<Rightarrow> int \<Rightarrow> bool" where
  "is_key i j k n = (((i + j + k) mod 2 = 0) \<noteq> (n mod 2 = 1))"

definition face_role :: "int \<Rightarrow> int \<Rightarrow> int \<Rightarrow> int \<Rightarrow> role" where
  "face_role i j k n = (if is_key i j k n then Key else Socket)"

definition apply_role ::
  "('m, 'g, 'f) lib \<Rightarrow> params \<Rightarrow> string \<Rightarrow> role \<Rightarrow> vec3 \<Rightarrow> 'm \<Rightarrow> exn + 'm"
where
  "apply_role L P axis r center piece =
    (case r of
       Key \<Rightarrow> boolean_union L piece
                (make_interlock_hybrid L center axis (cyl_radius P) (cyl_height P)
                   (sphere_radius P) False 1.05 False)
     | Socket \<Rightarrow> boolean_difference L piece
                (make_interlock_hybrid L center axis (cyl_radius P) (cyl_height P)
                   (sphere_radius P) True (socket_tolerance P) True))"




text \<open>The part of the state that the interlock phase must leave alone.\<close>

definition bookkeeping ::
  "('m, 'g) pstate \<Rightarrow> 'm list \<times> string list \<times> int \<times> int \<times> (string \<times> 'm) list"
where
  "bookkeeping s =
    (piece_meshes s, piece_paths s, piece_count s, completed_pieces s, exported s)"

text \<open>
  The bookkeeping invariant of the cell loop: the counter is the length of both lists.
\<close>

definition consistent :: "('m, 'g) pstate \<Rightarrow> bool" where
  "consistent s =
    (int (length (piece_meshes s)) = piece_count s \<and>
     length (piece_paths s) = length (piece_meshes s))"



text \<open>Reports of runs of the symbolic library, used as concrete examples.\<close>

definition two_piece_report :: report where
  "two_piece_report =
    \<lparr>r_piece_paths = [''out/piece_0_0_0.stl'', ''out/piece_1_0_0.stl''],
     r_view_image_paths =
       [''out/puzzle_view_1_e20_a30.png'', ''out/puzzle_view_2_e90_a0.png'',
        ''out/puzzle_view_3_e0_a0.png'', ''out/puzzle_view_4_e0_a90.png'',
        ''out/puzzle_view_5_e45_a45.png''],
     r_mesh_info =
       \<lparr>mi_bounds = ((0, 0, 0), (1, 1, 1)), mi_watertight = True,
        mi_filled_mesh_file = ''out/input_filled.stl'',
        mi_piece_count = 2, mi_total_possible_pieces = 2,
        mi_success_rate = OneDecimalPercent 100\<rparr>\<rparr>"

definition no_piece_report :: "int \<Rightarrow> rate \<Rightarrow> report" where
  "no_piece_report tot rt =
    \<lparr>r_piece_paths = [], r_view_image_paths = [],
     r_mesh_info =
       \<lparr>mi_bounds = ((0, 0, 0), (1, 1, 1)), mi_watertight = True,
        mi_filled_mesh_file = ''out/input_filled.stl'',
        mi_piece_count = 0, mi_total_possible_pieces = tot,
        mi_success_rate = rt\<rparr>\<rparr>"




section \<open>Theorems\<close>

subsection \<open>One interlock instance and one cell\<close>




lemma x_interlock_bookkeeping:
  "bookkeeping (snd (x_interlock L P i j k x0 x1 y0 y1 z0 z1 n st)) = bookkeeping (snd st)"
  by (simp add: x_interlock_def Let_def bookkeeping_def split: prod.split sum.split)

lemma y_interlock_bookkeeping:
  "bookkeeping (snd (y_interlock L P i j k x0 x1 y0 y1 z0 z1 n st)) = bookkeeping (snd st)"
  by (simp add: y_interlock_def Let_def bookkeeping_def split: prod.split sum.split)

lemma z_interlock_bookkeeping:
  "bookkeeping (snd (z_interlock L P i j k x0 x1 y0 y1 z0 z1 n st)) = bookkeeping (snd st)"
  by (simp add: z_interlock_def Let_def bookkeeping_def split: prod.split sum.split)

lemma x_interlock_submesh:
  "fst (x_interlock L P i j k x0 x1 y0 y1 z0 z1 n st) =
    (case apply_role L P ''x'' (face_role i j k n)
            (a_center (last (attempts (snd (x_interlock L P i j k x0 x1 y0 y1 z0 z1 n st)))))
            (fst st) of
       Inr m \<Rightarrow> m | Inl e \<Rightarrow> fst st)"
  by (cases "((i + j + k) mod 2 = 0) \<noteq> (n mod 2 = 1)")
     (simp_all add: x_interlock_def Let_def apply_role_def face_role_def is_key_def
        split: prod.split sum.split)

lemma y_interlock_submesh:
  "fst (y_interlock L P i j k x0 x1 y0 y1 z0 z1 n st) =
    (case apply_role L P ''y'' (face_role i j k n)
            (a_center (last (attempts (snd (y_interlock L P i j k x0 x1 y0 y1 z0 z1 n st)))))
            (fst st) of
       Inr m \<Rightarrow> m | Inl e \<Rightarrow> fst st)"
  by (cases "((i + j + k) mod 2 = 0) \<noteq> (n mod 2 = 1)")
     (simp_all add: y_interlock_def Let_def apply_role_def face_role_def is_key_def
        split: prod.split sum.split)

lemma z_interlock_submesh:
  "fst (z_interlock L P i j k x0 x1 y0 y1 z0 z1 n st) =
    (case apply_role L P ''z'' (face_role i j k n)
            (a_center (last (attempts (snd (z_interlock L P i j k x0 x1 y0 y1 z0 z1 n st)))))
            (fst st) of
       Inr m \<Rightarrow> m | Inl e \<Rightarrow> fst st)"
  by (cases "((i + j + k) mod 2 = 0) \<noteq> (n mod 2 = 1)")
     (simp_all add: z_interlock_def Let_def apply_role_def face_role_def is_key_def
        split: prod.split sum.split)


lemma fold_bookkeeping:
  assumes "\<And>n st. bookkeeping (snd (f n st)) = bookkeeping (snd st)"
  shows "bookkeeping (snd (fold f ns st)) = bookkeeping (snd st)"
  by (induction ns arbitrary: st) (simp_all add: assms)


lemma cell_interlocks_bookkeeping:
  "bookkeeping (snd (cell_interlocks L P nx ny nz i j k x0 x1 y0 y1 z0 z1 st))
   = bookkeeping (snd st)"
  by (simp add: cell_interlocks_def Let_def
      fold_bookkeeping [where f = "x_interlock L P i j k x0 x1 y0 y1 z0 z1", OF x_interlock_bookkeeping]
      fold_bookkeeping [where f = "y_interlock L P i j k x0 x1 y0 y1 z0 z1", OF y_interlock_bookkeeping]
      fold_bookkeeping [where f = "z_interlock L P i j k x0 x1 y0 y1 z0 z1", OF z_interlock_bookkeeping])






lemma x_interlock_role:
  "a_role (last (attempts (snd (x_interlock L P i j k x0 x1 y0 y1 z0 z1 n st))))
   = face_role i j k n"
  by (simp add: x_interlock_def Let_def face_role_def is_key_def split: prod.split sum.split)

lemma y_interlock_role:
  "a_role (last (attempts (snd (y_interlock L P i j k x0 x1 y0 y1 z0 z1 n st))))
   = face_role i j k n"
  by (simp add: y_interlock_def Let_def face_role_def is_key_def split: prod.split sum.split)

lemma z_interlock_role:
  "a_role (last (attempts (snd (z_interlock L P i j k x0 x1 y0 y1 z0 z1 n st))))
   = face_role i j k n"
  by (simp add: z_interlock_def Let_def face_role_def is_key_def split: prod.split sum.split)






subsection \<open>The cell loop and the whole run\<close>

lemma bookkeeping_fields:
  assumes "bookkeeping a = bookkeeping b"
  shows "piece_meshes a = piece_meshes b" "piece_paths a = piece_paths b"
    "piece_count a = piece_count b" "completed_pieces a = completed_pieces b"
    "exported a = exported b"
  using assms by (simp_all add: bookkeeping_def)

lemma export_piece_count:
  "piece_count s \<le> piece_count (export_piece L f m s) \<and>
   piece_count (export_piece L f m s) \<le> piece_count s + 1"
  by (simp add: export_piece_def split: sum.split)


lemma process_cell_count:
  "piece_count s \<le> piece_count (process_cell L P mesh xc yc zc nx ny nz i j k s) \<and>
   piece_count (process_cell L P mesh xc yc zc nx ny nz i j k s) \<le> piece_count s + 1"
proof -
  have e: "piece_count s
        \<le> piece_count (export_piece L f m
             (snd (cell_interlocks L P nx ny nz i j k x0 x1 y0 y1 z0 z1 (sub, s)))) \<and>
      piece_count (export_piece L f m
             (snd (cell_interlocks L P nx ny nz i j k x0 x1 y0 y1 z0 z1 (sub, s))))
        \<le> piece_count s + 1" for f m sub x0 x1 y0 y1 z0 z1
    using export_piece_count
        [of "snd (cell_interlocks L P nx ny nz i j k x0 x1 y0 y1 z0 z1 (sub, s))" L f m]
      bookkeeping_fields(3) [OF cell_interlocks_bookkeeping
        [of L P nx ny nz i j k x0 x1 y0 y1 z0 z1 "(sub, s)"]]
    by simp
  show ?thesis
    by (simp add: process_cell_def Let_def e split: sum.split)
qed


lemma fold_count_bounds:
  fixes c :: "'s \<Rightarrow> int"
  assumes "\<And>x s. c s \<le> c (f x s) \<and> c (f x s) \<le> c s + d"
  shows "c s \<le> c (fold f xs s) \<and> c (fold f xs s) \<le> c s + d * int (length xs)"
proof (induction xs arbitrary: s)
  case Nil
  show ?case by simp
next
  case (Cons x xs)
  from Cons.IH [of "f x s"] assms [of s x] show ?case
    by (simp add: algebra_simps)
qed


lemma all_cells_count:
  "piece_count s \<le> piece_count (all_cells L P mesh xc yc zc nx ny nz s) \<and>
   piece_count (all_cells L P mesh xc yc zc nx ny nz s)
     \<le> piece_count s + int (nat nx * nat ny * nat nz)"
proof -
  let ?cell = "\<lambda>i j k. process_cell L P mesh xc yc zc nx ny nz i j k"
  have k: "piece_count t \<le> piece_count (fold (?cell i j) [0..nz - 1] t) \<and>
       piece_count (fold (?cell i j) [0..nz - 1] t) \<le> piece_count t + int (nat nz)" for i j t
    using fold_count_bounds [where c = piece_count and f = "?cell i j" and d = 1
        and xs = "[0..nz - 1]" and s = t, OF process_cell_count]
    by simp
  have j: "piece_count t \<le> piece_count (fold (\<lambda>j. fold (?cell i j) [0..nz - 1]) [0..ny - 1] t) \<and>
       piece_count (fold (\<lambda>j. fold (?cell i j) [0..nz - 1]) [0..ny - 1] t)
         \<le> piece_count t + int (nat nz) * int (nat ny)" for i t
    using fold_count_bounds [where c = piece_count and f = "\<lambda>j. fold (?cell i j) [0..nz - 1]"
        and d = "int (nat nz)" and xs = "[0..ny - 1]" and s = t, OF k]
    by simp
  have i: "piece_count s \<le> piece_count (fold (\<lambda>i. fold (\<lambda>j. fold (?cell i j) [0..nz - 1]) [0..ny - 1]) [0..nx - 1] s) \<and>
       piece_count (fold (\<lambda>i. fold (\<lambda>j. fold (?cell i j) [0..nz - 1]) [0..ny - 1]) [0..nx - 1] s)
         \<le> piece_count s + int (nat nz) * int (nat ny) * int (nat nx)"
    using fold_count_bounds [where c = piece_count
        and f = "\<lambda>i. fold (\<lambda>j. fold (?cell i j) [0..nz - 1]) [0..ny - 1]"
        and d = "int (nat nz) * int (nat ny)" and xs = "[0..nx - 1]" and s = s, OF j]
    by simp
  show ?thesis
    using i by (simp add: all_cells_def mult.commute mult.left_commute)
qed


lemma generate_unfold:
  assumes "load_and_clean L P = Inr (mesh, filled)"
    and "grid_cuts (mesh_bounds L mesh) (divisions P) = Inr (xc, yc, zc)"
    and "divisions P = (nx, ny, nz)"
    and "np_random_seed L (seed P) = Inr u"
  shows "generate_puzzle_from_stl L P g0 =
    (let s = all_cells L P mesh xc yc zc nx ny nz
               ((initial_state g0)\<lparr>exported := [(filled, mesh)],
                                    rng := random_seed L (seed P)\<rparr>)
     in case render_views L P (mesh_bounds L mesh) (piece_meshes s) of
          Inl e \<Rightarrow> (Inl e, s)
        | Inr views \<Rightarrow>
            (Inr \<lparr>r_piece_paths = piece_paths s,
                  r_view_image_paths = views,
                  r_mesh_info =
                    \<lparr>mi_bounds = mesh_bounds L mesh,
                     mi_watertight = is_watertight L mesh,
                     mi_filled_mesh_file = filled,
                     mi_piece_count = piece_count s,
                     mi_total_possible_pieces = nx * ny * nz,
                     mi_success_rate =
                       (if nx * ny * nz > 0
                        then OneDecimalPercent
                               (real_of_int (piece_count s) / real_of_int (nx * ny * nz) * 100)
                        else ZeroPercent)\<rparr>\<rparr>,
             s))"
  using assms by (simp add: generate_puzzle_from_stl_def Let_def)

lemma generate_returns:
  assumes "fst (generate_puzzle_from_stl L P g0) = Inr r"
  obtains mesh filled xc yc zc nx ny nz views u where
    "load_and_clean L P = Inr (mesh, filled)"
    "grid_cuts (mesh_bounds L mesh) (divisions P) = Inr (xc, yc, zc)"
    "divisions P = (nx, ny, nz)"
    "np_random_seed L (seed P) = Inr u"
    "render_views L P (mesh_bounds L mesh)
       (piece_meshes (snd (generate_puzzle_from_stl L P g0))) = Inr views"
    "snd (generate_puzzle_from_stl L P g0) =
       all_cells L P mesh xc yc zc nx ny nz
         ((initial_state g0)\<lparr>exported := [(filled, mesh)], rng := random_seed L (seed P)\<rparr>)"
    "r_piece_paths r = piece_paths (snd (generate_puzzle_from_stl L P g0))"
    "r_view_image_paths r = views"
    "mi_piece_count (r_mesh_info r) = piece_count (snd (generate_puzzle_from_stl L P g0))"
    "mi_total_possible_pieces (r_mesh_info r) = nx * ny * nz"
    "mi_success_rate (r_mesh_info r) =
      (if nx * ny * nz > 0
       then OneDecimalPercent
              (real_of_int (piece_count (snd (generate_puzzle_from_stl L P g0)))
                 / real_of_int (nx * ny * nz) * 100)
       else ZeroPercent)"
proof -
  obtain mesh filled where l: "load_and_clean L P = Inr (mesh, filled)"
    using assms
    by (cases "load_and_clean L P") (auto simp: generate_puzzle_from_stl_def Let_def)
  obtain xc yc zc where g: "grid_cuts (mesh_bounds L mesh) (divisions P) = Inr (xc, yc, zc)"
    using assms l
    by (cases "grid_cuts (mesh_bounds L mesh) (divisions P)")
       (auto simp: generate_puzzle_from_stl_def Let_def)
  obtain nx ny nz where d: "divisions P = (nx, ny, nz)"
    by (cases "divisions P") auto
  obtain u where n: "np_random_seed L (seed P) = Inr u"
    using assms l g d
    by (cases "np_random_seed L (seed P)") (auto simp: generate_puzzle_from_stl_def Let_def)
  note unf = generate_unfold [OF l g d n, of g0]
  let ?s = "all_cells L P mesh xc yc zc nx ny nz
         ((initial_state g0)\<lparr>exported := [(filled, mesh)], rng := random_seed L (seed P)\<rparr>)"
  obtain views where v: "render_views L P (mesh_bounds L mesh) (piece_meshes ?s) = Inr views"
    using assms unf
    by (cases "render_views L P (mesh_bounds L mesh) (piece_meshes ?s)")
       (auto simp: Let_def)
  have s: "snd (generate_puzzle_from_stl L P g0) = ?s"
    using unf v by (simp add: Let_def)
  have r: "r = \<lparr>r_piece_paths = piece_paths ?s,
                  r_view_image_paths = views,
                  r_mesh_info =
                    \<lparr>mi_bounds = mesh_bounds L mesh,
                     mi_watertight = is_watertight L mesh,
                     mi_filled_mesh_file = filled,
                     mi_piece_count = piece_count ?s,
                     mi_total_possible_pieces = nx * ny * nz,
                     mi_success_rate =
                       (if nx * ny * nz > 0
                        then OneDecimalPercent
                               (real_of_int (piece_count ?s) / real_of_int (nx * ny * nz) * 100)
                        else ZeroPercent)\<rparr>\<rparr>"
    using assms unf v by (simp add: Let_def)
  show thesis
  proof (rule that [OF l g d n])
    show "render_views L P (mesh_bounds L mesh)
       (piece_meshes (snd (generate_puzzle_from_stl L P g0))) = Inr views"
      using v s by simp
    show "snd (generate_puzzle_from_stl L P g0) = ?s" by (rule s)
    show "r_piece_paths r = piece_paths (snd (generate_puzzle_from_stl L P g0))"
      by (simp only: s) (simp add: r)
    show "r_view_image_paths r = views" by (simp add: r)
    show "mi_piece_count (r_mesh_info r) = piece_count (snd (generate_puzzle_from_stl L P g0))"
      by (simp only: s) (simp add: r)
    show "mi_total_possible_pieces (r_mesh_info r) = nx * ny * nz" by (simp add: r)
    show "mi_success_rate (r_mesh_info r) =
      (if nx * ny * nz > 0
       then OneDecimalPercent
              (real_of_int (piece_count (snd (generate_puzzle_from_stl L P g0)))
                 / real_of_int (nx * ny * nz) * 100)
       else ZeroPercent)"
      by (simp only: s) (simp add: r)
  qed
qed

lemma initial_consistent:
  "consistent ((initial_state g)\<lparr>exported := e, rng := r\<rparr>)"
  "piece_count ((initial_state g)\<lparr>exported := e, rng := r\<rparr>) = 0"
  by (simp_all add: consistent_def initial_state_def)




subsection \<open>The grid cuts\<close>

lemma linspace_length:
  "linspace lo hi num = Inr ys \<Longrightarrow> length ys = nat num"
  by (auto simp: linspace_def Let_def split: if_splits)








lemma linspace_returns:
  "0 \<le> num \<Longrightarrow> \<exists>ys. linspace lo hi num = Inr ys"
  by (simp add: linspace_def Let_def)

lemma grid_cuts_returns:
  assumes "- 1 \<le> nx" "- 1 \<le> ny" "- 1 \<le> nz"
  shows "\<exists>xc yc zc. grid_cuts bnds (nx, ny, nz) = Inr (xc, yc, zc)"
proof -
  obtain x_min y_min z_min x_max y_max z_max where
    b: "bnds = ((x_min, y_min, z_min), (x_max, y_max, z_max))"
    by (metis prod.exhaust)
  obtain xc yc zc where "linspace x_min x_max (nx + 1) = Inr xc"
    "linspace y_min y_max (ny + 1) = Inr yc" "linspace z_min z_max (nz + 1) = Inr zc"
    using assms linspace_returns [of "nx + 1" x_min x_max]
      linspace_returns [of "ny + 1" y_min y_max] linspace_returns [of "nz + 1" z_min z_max]
    by auto
  then show ?thesis by (simp add: grid_cuts_def b)
qed

subsection \<open>Degenerate grids and concrete runs\<close>

lemma all_cells_no_cells:
  assumes "nx \<le> 0 \<or> ny \<le> 0 \<or> nz \<le> 0"
  shows "all_cells L P mesh xc yc zc nx ny nz s = s"
proof -
  consider "nx \<le> 0" | "ny \<le> 0" | "nz \<le> 0" using assms by blast
  then show ?thesis
  proof cases
    case 1
    then show ?thesis by (simp add: all_cells_def)
  next
    case 2
    then show ?thesis by (simp add: all_cells_def fold_id)
  next
    case 3
    then show ?thesis by (simp add: all_cells_def fold_id)
  qed
qed

lemma render_views_no_pieces: "render_views L P bnds [] = Inr []"
  by (simp add: render_views_def)

lemma run_two_cells:
  "fst (generate_puzzle_from_stl reliable_lib (example_params (2, 1, 1) 1) 0)
   = Inr two_piece_report"
  by code_simp

lemma run_negative_division:
  "fst (generate_puzzle_from_stl reliable_lib (example_params (- 1, 1, 1) 1) 0)
   = Inr (no_piece_report (- 1) ZeroPercent)"
  by code_simp

lemma run_zero_division:
  "fst (generate_puzzle_from_stl reliable_lib (example_params (0, 1, 1) 0) 0)
   = Inr (no_piece_report 0 ZeroPercent)"
  by code_simp

lemma run_cleanup_failure:
  "generate_puzzle_from_stl cleanup_failing_lib (example_params (1, 1, 1) 1) 0
   = (Inr (no_piece_report 1 (OneDecimalPercent 0)),
      \<lparr>rng = 42, piece_meshes = [], piece_paths = [], piece_count = 0,
       completed_pieces = 1,
       exported = [(''out/input_filled.stl'', Loaded ''cube.stl'')], attempts = []\<rparr>)"
  by code_simp

lemma example_divisions: "divisions (example_params d l) = d"
  by (simp add: example_params_def)

subsection \<open>Previews\<close>










subsection \<open>The claims\<close>

text \<open>
  C10. The builder of \<^verbatim>\<open>backend.py\<close> and the builder of \<^verbatim>\<open>backend2.py\<close> return the
  same solid for every argument tuple, given the same collaborators (the same primitive
  constructions and the same outcome of the union).
\<close>

theorem make_interlock_hybrid_variants_equal:
  "make_interlock_hybrid L center axis radius height dome socket tolerance flip_dir
   = make_interlock_hybrid2 L center axis radius height dome socket tolerance flip_dir"
  by (simp add: make_interlock_hybrid_def make_interlock_hybrid2_def)

text \<open>
  C5, as amended. When \<^verbatim>\<open>generate_puzzle_from_stl\<close> returns, the statistics satisfy:
  \<^verbatim>\<open>total_possible_pieces\<close> is \<open>nx * ny * nz\<close>; \<^verbatim>\<open>piece_count\<close> is at least 0 and at
  most the number of cells visited, \<open>max(nx,0) * max(ny,0) * max(nz,0)\<close>, hence at most
  \<^verbatim>\<open>total_possible_pieces\<close> when no division is negative; \<^verbatim>\<open>success_rate\<close> is the
  ratio as a percentage when the total is positive and \<^verbatim>\<open>"0%"\<close> otherwise.
\<close>

theorem statistics_record:
  assumes "fst (generate_puzzle_from_stl L P g0) = Inr r"
    and "divisions P = (nx, ny, nz)"
  shows "mi_total_possible_pieces (r_mesh_info r) = nx * ny * nz \<and>
         0 \<le> mi_piece_count (r_mesh_info r) \<and>
         mi_piece_count (r_mesh_info r) \<le> int (nat nx * nat ny * nat nz) \<and>
         (0 \<le> nx \<and> 0 \<le> ny \<and> 0 \<le> nz \<longrightarrow>
            mi_piece_count (r_mesh_info r) \<le> mi_total_possible_pieces (r_mesh_info r)) \<and>
         mi_success_rate (r_mesh_info r) =
           (if mi_total_possible_pieces (r_mesh_info r) > 0
            then OneDecimalPercent
                   (real_of_int (mi_piece_count (r_mesh_info r))
                      / real_of_int (mi_total_possible_pieces (r_mesh_info r)) * 100)
            else ZeroPercent)"
proof -
  from assms(1) obtain mesh filled xc yc zc nx' ny' nz' where
    d: "divisions P = (nx', ny', nz')" and
    s: "snd (generate_puzzle_from_stl L P g0) =
       all_cells L P mesh xc yc zc nx' ny' nz'
         ((initial_state g0)\<lparr>exported := [(filled, mesh)], rng := random_seed L (seed P)\<rparr>)" and
    c: "mi_piece_count (r_mesh_info r) = piece_count (snd (generate_puzzle_from_stl L P g0))" and
    t: "mi_total_possible_pieces (r_mesh_info r) = nx' * ny' * nz'" and
    q: "mi_success_rate (r_mesh_info r) =
      (if nx' * ny' * nz' > 0
       then OneDecimalPercent
              (real_of_int (piece_count (snd (generate_puzzle_from_stl L P g0)))
                 / real_of_int (nx' * ny' * nz') * 100)
       else ZeroPercent)"
    by (rule generate_returns)
  from d assms(2) have e: "nx' = nx" "ny' = ny" "nz' = nz" by simp_all
  have b: "0 \<le> mi_piece_count (r_mesh_info r) \<and>
           mi_piece_count (r_mesh_info r) \<le> int (nat nx * nat ny * nat nz)"
    using all_cells_count [of "(initial_state g0)\<lparr>exported := [(filled, mesh)],
        rng := random_seed L (seed P)\<rparr>" L P mesh xc yc zc nx ny nz]
    by (simp add: c s e initial_consistent(2))
  have m: "0 \<le> nx \<and> 0 \<le> ny \<and> 0 \<le> nz \<longrightarrow> int (nat nx * nat ny * nat nz) = nx * ny * nz"
    by simp
  have n: "0 \<le> nx \<and> 0 \<le> ny \<and> 0 \<le> nz \<longrightarrow>
           mi_piece_count (r_mesh_info r) \<le> nx * ny * nz"
    using b m by auto
  show ?thesis
    using b n by (simp add: t q c e)
qed

theorem statistics_record_witness:
  "fst (generate_puzzle_from_stl reliable_lib (example_params (2, 1, 1) 1) 0)
     = Inr two_piece_report \<and>
   divisions (example_params (2, 1, 1) 1) = (2, 1, 1) \<and>
   mi_total_possible_pieces (r_mesh_info two_piece_report) = 2 * 1 * 1 \<and>
   0 \<le> mi_piece_count (r_mesh_info two_piece_report) \<and>
   mi_piece_count (r_mesh_info two_piece_report)
     \<le> mi_total_possible_pieces (r_mesh_info two_piece_report) \<and>
   mi_success_rate (r_mesh_info two_piece_report) = OneDecimalPercent (2 / 2 * 100)"
proof -
  have d: "divisions (example_params (2, 1, 1) 1) = (2, 1, 1)"
    by (simp add: example_params_def)
  from statistics_record [OF run_two_cells d] run_two_cells d show ?thesis
    by (simp add: two_piece_report_def)
qed

text \<open>
  C5 as stated fails for a negative division: with divisions \<open>(-1, 1, 1)\<close> no cell is
  visited, the run returns \<^verbatim>\<open>piece_count = 0\<close> and \<^verbatim>\<open>total_possible_pieces = -1\<close>.
\<close>

theorem statistics_negative_division_counterexample:
  "fst (generate_puzzle_from_stl reliable_lib (example_params (- 1, 1, 1) 1) 0)
     = Inr (no_piece_report (- 1) ZeroPercent) \<and>
   \<not> mi_piece_count (r_mesh_info (no_piece_report (- 1) ZeroPercent))
       \<le> mi_total_possible_pieces (r_mesh_info (no_piece_report (- 1) ZeroPercent))"
  by (simp add: run_negative_division no_piece_report_def)

text \<open>
  C3. The claim says that a piece whose cleanup raises is still exported. In
  \<^verbatim>\<open>backend.py\<close> the cleanup is in the same \<^verbatim>\<open>try\<close> as the export: when \<^verbatim>\<open>process\<close>
  raises on the only piece of a one-cell grid, nothing but the repaired input is
  exported, \<^verbatim>\<open>piece_paths\<close> is empty and \<^verbatim>\<open>piece_count\<close> is 0.
\<close>

theorem cleanup_failure_drops_piece:
  "generate_puzzle_from_stl cleanup_failing_lib (example_params (1, 1, 1) 1) 0
   = (Inr (no_piece_report 1 (OneDecimalPercent 0)),
      \<lparr>rng = 42, piece_meshes = [], piece_paths = [], piece_count = 0,
       completed_pieces = 1,
       exported = [(''out/input_filled.stl'', Loaded ''cube.stl'')], attempts = []\<rparr>)"
  by (rule run_cleanup_failure)




text \<open>
  C7, as amended. \<^verbatim>\<open>generate_puzzle_from_stl\<close> does not check its parameters. When
  the directory, the load, the repair and the export of the repaired mesh succeed and
  \<^verbatim>\<open>np.random.seed\<close> accepts the seed, then for divisions with every component at
  least \<open>-1\<close> and at least one component at most 0 the function runs to completion,
  for every \<^verbatim>\<open>locks_per_face\<close> and \<^verbatim>\<open>socket_tolerance\<close>, and returns a report with no
  piece, no preview and \<^verbatim>\<open>piece_count = 0\<close>.
\<close>

theorem parameters_not_validated:
  assumes "load_and_clean L P = Inr (mesh, filled)"
    and "np_random_seed L (seed P) = Inr u"
    and "divisions P = (nx, ny, nz)"
    and "- 1 \<le> nx" "- 1 \<le> ny" "- 1 \<le> nz"
    and "nx \<le> 0 \<or> ny \<le> 0 \<or> nz \<le> 0"
  shows "fst (generate_puzzle_from_stl L P g0) =
    Inr \<lparr>r_piece_paths = [], r_view_image_paths = [],
         r_mesh_info =
           \<lparr>mi_bounds = mesh_bounds L mesh,
            mi_watertight = is_watertight L mesh,
            mi_filled_mesh_file = filled,
            mi_piece_count = 0,
            mi_total_possible_pieces = nx * ny * nz,
            mi_success_rate =
              (if nx * ny * nz > 0 then OneDecimalPercent 0 else ZeroPercent)\<rparr>\<rparr>"
proof -
  obtain xc yc zc where
    g: "grid_cuts (mesh_bounds L mesh) (divisions P) = Inr (xc, yc, zc)"
    using grid_cuts_returns [OF assms(4-6)] assms(3) by metis
  show ?thesis
    by (simp add: generate_unfold [OF assms(1) g assms(3) assms(2)]
        all_cells_no_cells [OF assms(7)] render_views_no_pieces initial_state_def)
qed

theorem parameters_not_validated_witness:
  "load_and_clean reliable_lib (example_params (0, 1, 1) 0)
     = Inr (Loaded ''cube.stl'', ''out/input_filled.stl'') \<and>
   np_random_seed reliable_lib (seed (example_params (0, 1, 1) 0)) = Inr () \<and>
   divisions (example_params (0, 1, 1) 0) = (0, 1, 1) \<and>
   fst (generate_puzzle_from_stl reliable_lib (example_params (0, 1, 1) 0) 0)
     = Inr (no_piece_report 0 ZeroPercent)"
proof -
  have l: "load_and_clean reliable_lib (example_params (0, 1, 1) 0)
     = Inr (Loaded ''cube.stl'', ''out/input_filled.stl'')"
    by code_simp
  have n: "np_random_seed reliable_lib (seed (example_params (0, 1, 1) 0)) = Inr ()"
    by code_simp
  have d: "divisions (example_params (0, 1, 1) 0) = (0, 1, 1)"
    by (simp add: example_params_def)
  have b: "mesh_bounds reliable_lib (Loaded ''cube.stl'') = ((0, 0, 0), (1, 1, 1))"
    "is_watertight reliable_lib (Loaded ''cube.stl'') = True"
    by (simp_all add: reliable_lib_def sym_lib_def)
  from parameters_not_validated [OF l n d, of 0] l n d show ?thesis
    by (simp add: no_piece_report_def b)
qed

text \<open>
  C7 as stated fails: with divisions \<open>(0, 1, 1)\<close> and \<^verbatim>\<open>locks_per_face = 0\<close> the run
  raises nothing and returns a report.
\<close>

theorem invalid_parameters_accepted_counterexample:
  "fst (generate_puzzle_from_stl reliable_lib (example_params (0, 1, 1) 0) 0)
   = Inr (no_piece_report 0 ZeroPercent)"
  by (rule run_zero_division)

text \<open>
  C8. Two runs with the same collaborators and the same parameters (the seed among
  them) give the same result, the same interlock instances with the same centres in the
  same order, the same \<^verbatim>\<open>piece_count\<close> and the same pieces, whatever the state of the
  process-wide generator was when each run started: the generator is reseeded before
  the first draw.
\<close>

theorem rerun_reproducible:
  "fst (generate_puzzle_from_stl L P g) = fst (generate_puzzle_from_stl L P g') \<and>
   attempts (snd (generate_puzzle_from_stl L P g))
     = attempts (snd (generate_puzzle_from_stl L P g')) \<and>
   piece_count (snd (generate_puzzle_from_stl L P g))
     = piece_count (snd (generate_puzzle_from_stl L P g')) \<and>
   piece_meshes (snd (generate_puzzle_from_stl L P g))
     = piece_meshes (snd (generate_puzzle_from_stl L P g'))"
proof -
  have i: "(initial_state g)\<lparr>exported := e, rng := r\<rparr>
         = (initial_state g')\<lparr>exported := e, rng := r\<rparr>" for e r
    by (simp add: initial_state_def)
  show ?thesis
    by (simp add: generate_puzzle_from_stl_def Let_def i initial_state_def
        split: sum.split prod.split)
qed

text \<open>
  C1. On each of the three face axes the branch taken for instance \<open>n\<close> of cell
  \<open>(i, j, k)\<close> is Key exactly when \<open>((i+j+k) % 2 == 0) XOR (n % 2 == 1)\<close>, and the piece
  becomes the union with a key or the difference with a socket accordingly (or is
  unchanged if that operation raises). The role is a function of \<open>(i, j, k, n)\<close> alone:
  the statement holds for every collaborator record, every parameter record (the seed
  among them) and every state, the generator state included.
\<close>

theorem face_role_rule:
  "a_role (last (attempts (snd (x_interlock L P i j k x0 x1 y0 y1 z0 z1 n st))))
     = face_role i j k n \<and>
   a_role (last (attempts (snd (y_interlock L P i j k x0 x1 y0 y1 z0 z1 n st))))
     = face_role i j k n \<and>
   a_role (last (attempts (snd (z_interlock L P i j k x0 x1 y0 y1 z0 z1 n st))))
     = face_role i j k n \<and>
   (face_role i j k n = Key) = (((i + j + k) mod 2 = 0) \<noteq> (n mod 2 = 1)) \<and>
   fst (x_interlock L P i j k x0 x1 y0 y1 z0 z1 n st) =
     (case apply_role L P ''x'' (face_role i j k n)
             (a_center (last (attempts (snd (x_interlock L P i j k x0 x1 y0 y1 z0 z1 n st)))))
             (fst st) of
        Inr m \<Rightarrow> m | Inl e \<Rightarrow> fst st) \<and>
   fst (y_interlock L P i j k x0 x1 y0 y1 z0 z1 n st) =
     (case apply_role L P ''y'' (face_role i j k n)
             (a_center (last (attempts (snd (y_interlock L P i j k x0 x1 y0 y1 z0 z1 n st)))))
             (fst st) of
        Inr m \<Rightarrow> m | Inl e \<Rightarrow> fst st) \<and>
   fst (z_interlock L P i j k x0 x1 y0 y1 z0 z1 n st) =
     (case apply_role L P ''z'' (face_role i j k n)
             (a_center (last (attempts (snd (z_interlock L P i j k x0 x1 y0 y1 z0 z1 n st)))))
             (fst st) of
        Inr m \<Rightarrow> m | Inl e \<Rightarrow> fst st)"
proof -
  have r: "(face_role i j k n = Key) = (((i + j + k) mod 2 = 0) \<noteq> (n mod 2 = 1))"
    by (simp add: face_role_def is_key_def)
  show ?thesis
    using x_interlock_submesh [of L P i j k x0 x1 y0 y1 z0 z1 n st]
      y_interlock_submesh [of L P i j k x0 x1 y0 y1 z0 z1 n st]
      z_interlock_submesh [of L P i j k x0 x1 y0 y1 z0 z1 n st]
    by (simp only: x_interlock_role y_interlock_role z_interlock_role r simp_thms)
qed







end
